theory Spec2Isabelle
  imports Main "HOL-Library.Word"
begin

section \<open>The catalog API of the local library\<close>

text \<open>
  A shallow embedding of \<^verbatim>\<open>locallibrary/api.py\<close>: the route handlers of the catalog
  (authors, genres, languages, books, book instances), the return workflow and the token
  endpoint. Every handler is a function from the database state (and its arguments) to
  the pair of its reply and the database state it leaves behind. A reply is the pair the
  Python returns: the status code and the body, \<open>Inl message\<close> for the error schema
  \<^verbatim>\<open>{"message": ...}\<close> and \<open>Inr value\<close> for the success schema.

  The object-relational mapper is modelled as finite maps from primary keys to rows:
  \<^verbatim>\<open>objects.get(id=k)\<close> is the lookup (\<open>None\<close> is \<^verbatim>\<open>DoesNotExist\<close>),
  \<^verbatim>\<open>save()\<close> is the map update. Faults of the database itself (a violated constraint,
  a driver error) are not modelled, so the catch-all \<^verbatim>\<open>except Exception\<close> clauses of
  the handlers have no counterpart here. The \<^verbatim>\<open>request\<close> argument is kept only where a
  handler reads it.
\<close>

subsection \<open>Rows\<close>

text \<open>
  Modelled from the spec: the classes of \<^verbatim>\<open>catalog.models\<close> are not part of the
  sources; the rows carry the fields that section 3 of the specification lists and that
  the handlers read and write. A foreign key is the primary key of the row it refers to.
\<close>

type_synonym date = int
type_synonym uuid = "128 word"

record Author =
  first_name :: string
  last_name :: string
  date_of_birth :: "date option"
  date_of_death :: "date option"

record Genre =
  name :: string

record Language =
  name :: string

record Book =
  title :: string
  summary :: string
  isbn :: string
  author :: "int option"
  language :: "int option"

record BookInstance =
  book :: int
  imprint :: string
  due_back :: "date option"
  borrower :: "int option"
  status :: string

text \<open>The user rows of the identity store, with what authentication and the permission
  check read.\<close>

record User =
  user_id :: int
  username :: string
  password :: string
  is_active :: bool
  is_superuser :: bool
  user_permissions :: "string list"

text \<open>
  The database. \<open>book_genre\<close> is the many-to-many table \<^verbatim>\<open>Book.genre\<close>, grouped by
  book: the set of genre keys linked to a book key. \<open>book_seq\<close> is the sequence that
  gives a new book its key.
\<close>

record store =
  authors :: "int \<rightharpoonup> Author"
  genres :: "int \<rightharpoonup> Genre"
  languages :: "int \<rightharpoonup> Language"
  books :: "int \<rightharpoonup> Book"
  book_genre :: "int \<Rightarrow> int set"
  book_seq :: int
  bookinstances :: "uuid \<rightharpoonup> BookInstance"
  users :: "User list"

subsection \<open>Schemas\<close>

record AuthorUpdateSchema =
  first_name :: "string option"
  last_name :: "string option"
  date_of_birth :: "date option"
  date_of_death :: "date option"

record GenreUpdateSchema =
  name :: "string option"

record LanguageUpdateSchema =
  name :: "string option"

record BookCreateSchema =
  title :: string
  summary :: string
  isbn :: string
  author_id :: "int option"
  language_id :: "int option"
  genre_ids :: "int list"

record BookUpdateSchema =
  title :: "string option"
  summary :: "string option"
  isbn :: "string option"
  author_id :: "int option"
  language_id :: "int option"
  genre_ids :: "int list option"

record BookInstanceCreateSchema =
  book_id :: int
  imprint :: string
  due_back :: "date option"
  borrower_id :: "int option"
  status :: string

record BookInstanceUpdateSchema =
  book_id :: "int option"
  imprint :: "string option"
  due_back :: "date option"
  borrower_id :: "int option"
  status :: "string option"

record LoginInput =
  username :: string
  password :: string

record TokenOutput =
  access_token :: string

record request =
  user :: "User option"

type_synonym 'a response = "int \<times> (string + 'a)"

subsection \<open>Library functions the handlers call\<close>

text \<open>Python's \<^verbatim>\<open>str\<close> of an integer, for the identifiers inside the messages.\<close>

fun str_nat :: "nat \<Rightarrow> string" where
  "str_nat n =
     (if n < 10 then [''0123456789'' ! n]
      else str_nat (n div 10) @ [''0123456789'' ! (n mod 10)])"

declare str_nat.simps [simp del]

definition str_int :: "int \<Rightarrow> string" where
  "str_int i = (if i < 0 then CHR ''-'' # str_nat (nat (- i)) else str_nat (nat i))"

text \<open>
  \<^verbatim>\<open>User.objects.get(id=k)\<close> and the lookup by user name on the table of users.
\<close>

definition get_user :: "store \<Rightarrow> int \<Rightarrow> User option" where
  "get_user s k = find (\<lambda>u. user_id u = k) (users s)"

text \<open>
  \<^verbatim>\<open>django.contrib.auth.authenticate\<close> with the model backend: the user with
  that name, when the password is the user's and the user is active.
\<close>

definition authenticate :: "User list \<Rightarrow> string \<Rightarrow> string \<Rightarrow> User option" where
  "authenticate us uname pw =
     (case find (\<lambda>u. User.username u = uname) us of
        None \<Rightarrow> None
      | Some u \<Rightarrow> if User.password u = pw \<and> is_active u then Some u else None)"

text \<open>
  \<^verbatim>\<open>user.has_perm(perm)\<close>: an active superuser has every permission, another active
  user the permissions granted to it; the anonymous user (\<open>None\<close>) has none.
\<close>

definition has_perm :: "User option \<Rightarrow> string \<Rightarrow> bool" where
  "has_perm who perm =
     (case who of
        None \<Rightarrow> False
      | Some u \<Rightarrow> is_active u \<and> (is_superuser u \<or> perm \<in> set (user_permissions u)))"

text \<open>
  \<^verbatim>\<open>django_auth\<close>: the session's user when there is one. A route declared with
  \<^verbatim>\<open>auth=django_auth\<close> answers 401 without running its handler when there is none.
\<close>

definition django_auth :: "request \<Rightarrow> User option" where
  "django_auth req = user req"

definition secured :: "request \<Rightarrow> store \<Rightarrow> 'a response \<times> store \<Rightarrow> 'a response \<times> store" where
  "secured req s handler =
     (case django_auth req of
        None \<Rightarrow> ((401, Inl ''Unauthorized''), s)
      | Some _ \<Rightarrow> handler)"

text \<open>
  \<^verbatim>\<open>uuid.UUID(hex)\<close>, the parser of instance tokens, is an argument \<open>UUID\<close> of the
  handlers that call it: \<open>None\<close> is its \<^verbatim>\<open>ValueError\<close>. \<open>UUID_hex\<close> below is the
  instance used in the examples. It follows the standard library on the plain spellings:
  the markers \<^verbatim>\<open>urn:\<close> and \<^verbatim>\<open>uuid:\<close> are removed, braces are stripped from both
  ends, hyphens are removed, and what remains must be 32 hexadecimal digits. (Python's
  \<^verbatim>\<open>int(hex, 16)\<close> also accepts a sign, blanks, a \<^verbatim>\<open>0x\<close> prefix and underscores
  between digits; \<open>UUID_hex\<close> rejects those spellings.)
\<close>

function replace_empty :: "string \<Rightarrow> string \<Rightarrow> string" where
  "replace_empty old [] = []"
| "replace_empty old (c # cs) =
     (if old \<noteq> [] \<and> take (length old) (c # cs) = old
      then replace_empty old (drop (length old) (c # cs))
      else c # replace_empty old cs)"
  by pat_completeness auto
termination
  by (relation "measure (\<lambda>(old, s). length s)") auto

definition strip_braces :: "string \<Rightarrow> string" where
  "strip_braces s =
     rev (dropWhile (\<lambda>c. c = CHR ''{'' \<or> c = CHR ''}'')
       (rev (dropWhile (\<lambda>c. c = CHR ''{'' \<or> c = CHR ''}'') s)))"

definition hex_digit :: "char \<Rightarrow> nat option" where
  "hex_digit c =
     (let k = (of_char c :: nat) in
      if 48 \<le> k \<and> k \<le> 57 then Some (k - 48)
      else if 97 \<le> k \<and> k \<le> 102 then Some (k - 87)
      else if 65 \<le> k \<and> k \<le> 70 then Some (k - 55)
      else None)"

fun hex_value :: "nat \<Rightarrow> string \<Rightarrow> nat option" where
  "hex_value acc [] = Some acc"
| "hex_value acc (c # cs) =
     (case hex_digit c of None \<Rightarrow> None | Some d \<Rightarrow> hex_value (16 * acc + d) cs)"

definition UUID_hex :: "string \<Rightarrow> uuid option" where
  "UUID_hex hex =
     (let h = replace_empty ''uuid:'' (replace_empty ''urn:'' hex);
          h = filter (\<lambda>c. c \<noteq> CHR ''-'') (strip_braces h)
      in if length h \<noteq> 32 then None else map_option word_of_nat (hex_value 0 h))"

subsection \<open>Authors, genres and languages: the update handlers\<close>

definition update_author ::
  "store \<Rightarrow> int \<Rightarrow> AuthorUpdateSchema \<Rightarrow> (int \<times> Author) response \<times> store" where
  "update_author s aid payload =
     (case authors s aid of
        None \<Rightarrow> ((404, Inl ''Author not found''), s)
      | Some a0 \<Rightarrow>
          let a1 = (case AuthorUpdateSchema.first_name payload of
                      None \<Rightarrow> a0 | Some v \<Rightarrow> a0\<lparr>Author.first_name := v\<rparr>);
              a2 = (case AuthorUpdateSchema.last_name payload of
                      None \<Rightarrow> a1 | Some v \<Rightarrow> a1\<lparr>Author.last_name := v\<rparr>);
              a3 = (case AuthorUpdateSchema.date_of_birth payload of
                      None \<Rightarrow> a2 | Some v \<Rightarrow> a2\<lparr>Author.date_of_birth := Some v\<rparr>);
              a4 = (case AuthorUpdateSchema.date_of_death payload of
                      None \<Rightarrow> a3 | Some v \<Rightarrow> a3\<lparr>Author.date_of_death := Some v\<rparr>)
          in ((200, Inr (aid, a4)), s\<lparr>authors := (authors s)(aid \<mapsto> a4)\<rparr>))"

definition update_genre ::
  "store \<Rightarrow> int \<Rightarrow> GenreUpdateSchema \<Rightarrow> (int \<times> Genre) response \<times> store" where
  "update_genre s gid payload =
     (case genres s gid of
        None \<Rightarrow> ((404, Inl ''Genre not found''), s)
      | Some g0 \<Rightarrow>
          let g1 = (case GenreUpdateSchema.name payload of
                      None \<Rightarrow> g0 | Some v \<Rightarrow> g0\<lparr>Genre.name := v\<rparr>)
          in ((200, Inr (gid, g1)), s\<lparr>genres := (genres s)(gid \<mapsto> g1)\<rparr>))"

definition update_language ::
  "store \<Rightarrow> int \<Rightarrow> LanguageUpdateSchema \<Rightarrow> (int \<times> Language) response \<times> store" where
  "update_language s lid payload =
     (case languages s lid of
        None \<Rightarrow> ((404, Inl ''Language not found''), s)
      | Some l0 \<Rightarrow>
          let l1 = (case LanguageUpdateSchema.name payload of
                      None \<Rightarrow> l0 | Some v \<Rightarrow> l0\<lparr>Language.name := v\<rparr>)
          in ((200, Inr (lid, l1)), s\<lparr>languages := (languages s)(lid \<mapsto> l1)\<rparr>))"

subsection \<open>Books\<close>

text \<open>
  The loop \<^verbatim>\<open>for genre_id in payload.genre_ids\<close> of \<open>create_book\<close> and
  \<open>update_book\<close>: each genre that exists is linked to the book at once; the loop stops
  at the first identifier whose lookup raises \<^verbatim>\<open>Genre.DoesNotExist\<close> and reports it.
\<close>

fun add_genres :: "int \<Rightarrow> int list \<Rightarrow> store \<Rightarrow> int option \<times> store" where
  "add_genres bid [] s = (None, s)"
| "add_genres bid (gid # gids) s =
     (case genres s gid of
        None \<Rightarrow> (Some gid, s)
      | Some _ \<Rightarrow>
          add_genres bid gids
            (s\<lparr>book_genre := (book_genre s)(bid := insert gid (book_genre s bid))\<rparr>))"

text \<open>
  Python's \<^verbatim>\<open>if payload.author_id:\<close> is false for \<^verbatim>\<open>None\<close> and for \<open>0\<close>;
  \<^verbatim>\<open>if payload.genre_ids:\<close> is false for the empty list. \<^verbatim>\<open>book.save()\<close> inserts the
  new row under the next key of the sequence.
\<close>

definition create_book ::
  "store \<Rightarrow> BookCreateSchema \<Rightarrow> (int \<times> Book) response \<times> store" where
  "create_book s payload =
     (let b0 = \<lparr>Book.title = BookCreateSchema.title payload,
                Book.summary = BookCreateSchema.summary payload,
                Book.isbn = BookCreateSchema.isbn payload,
                author = None, language = None\<rparr>
      in case (case BookCreateSchema.author_id payload of
                 None \<Rightarrow> Inr b0
               | Some k \<Rightarrow>
                   if k \<noteq> 0
                   then (case authors s k of
                           None \<Rightarrow> Inl k
                         | Some _ \<Rightarrow> Inr (b0\<lparr>author := Some k\<rparr>))
                   else Inr b0) of
           Inl k \<Rightarrow> ((400, Inl (''Author with ID '' @ str_int k @ '' not found'')), s)
         | Inr b1 \<Rightarrow>
             (case (case BookCreateSchema.language_id payload of
                      None \<Rightarrow> Inr b1
                    | Some k \<Rightarrow>
                        if k \<noteq> 0
                        then (case languages s k of
                                None \<Rightarrow> Inl k
                              | Some _ \<Rightarrow> Inr (b1\<lparr>language := Some k\<rparr>))
                        else Inr b1) of
                Inl k \<Rightarrow> ((400, Inl (''Language with ID '' @ str_int k @ '' not found'')), s)
              | Inr b2 \<Rightarrow>
                  let bid = book_seq s;
                      s1 = s\<lparr>books := (books s)(bid \<mapsto> b2), book_seq := bid + 1\<rparr>
                  in if BookCreateSchema.genre_ids payload \<noteq> []
                     then (case add_genres bid (BookCreateSchema.genre_ids payload) s1 of
                             (Some g, s2) \<Rightarrow>
                               ((400, Inl (''Genre with ID '' @ str_int g @ '' not found'')), s2)
                           | (None, s2) \<Rightarrow> ((201, Inr (bid, b2)), s2))
                     else ((201, Inr (bid, b2)), s1)))"

definition update_book ::
  "store \<Rightarrow> int \<Rightarrow> BookUpdateSchema \<Rightarrow> (int \<times> Book) response \<times> store" where
  "update_book s bid payload =
     (case books s bid of
        None \<Rightarrow> ((404, Inl ''Book not found''), s)
      | Some b0 \<Rightarrow>
          let b1 = (case BookUpdateSchema.title payload of
                      None \<Rightarrow> b0 | Some v \<Rightarrow> b0\<lparr>Book.title := v\<rparr>);
              b2 = (case BookUpdateSchema.summary payload of
                      None \<Rightarrow> b1 | Some v \<Rightarrow> b1\<lparr>Book.summary := v\<rparr>);
              b3 = (case BookUpdateSchema.isbn payload of
                      None \<Rightarrow> b2 | Some v \<Rightarrow> b2\<lparr>Book.isbn := v\<rparr>)
          in case (case BookUpdateSchema.author_id payload of
                     None \<Rightarrow> Inr b3
                   | Some k \<Rightarrow>
                       (case authors s k of
                          None \<Rightarrow> Inl k
                        | Some _ \<Rightarrow> Inr (b3\<lparr>author := Some k\<rparr>))) of
               Inl k \<Rightarrow> ((400, Inl (''Author with ID '' @ str_int k @ '' not found'')), s)
             | Inr b4 \<Rightarrow>
                 (case (case BookUpdateSchema.language_id payload of
                          None \<Rightarrow> Inr b4
                        | Some k \<Rightarrow>
                            (case languages s k of
                               None \<Rightarrow> Inl k
                             | Some _ \<Rightarrow> Inr (b4\<lparr>language := Some k\<rparr>))) of
                    Inl k \<Rightarrow>
                      ((400, Inl (''Language with ID '' @ str_int k @ '' not found'')), s)
                  | Inr b5 \<Rightarrow>
                      let s1 = s\<lparr>books := (books s)(bid \<mapsto> b5)\<rparr>
                      in (case BookUpdateSchema.genre_ids payload of
                            None \<Rightarrow> ((200, Inr (bid, b5)), s1)
                          | Some gids \<Rightarrow>
                              (case add_genres bid gids
                                      (s1\<lparr>book_genre := (book_genre s1)(bid := {})\<rparr>) of
                                 (Some g, s2) \<Rightarrow>
                                   ((400, Inl (''Genre with ID '' @ str_int g @ '' not found'')),
                                    s2)
                               | (None, s2) \<Rightarrow> ((200, Inr (bid, b5)), s2)))))"

subsection \<open>Book instances\<close>

definition get_bookinstance ::
  "(string \<Rightarrow> uuid option) \<Rightarrow> store \<Rightarrow> string \<Rightarrow> (uuid \<times> BookInstance) response" where
  "get_bookinstance UUID s instance_id =
     (case UUID instance_id of
        None \<Rightarrow> (404, Inl ''Invalid UUID format'')
      | Some instance_uuid \<Rightarrow>
          (case bookinstances s instance_uuid of
             None \<Rightarrow> (404, Inl ''Book instance not found'')
           | Some bi \<Rightarrow> (200, Inr (instance_uuid, bi))))"

text \<open>
  The key of a new instance is the model's default, a random token; it is the argument
  \<open>new_id\<close>.
\<close>

definition create_bookinstance ::
  "uuid \<Rightarrow> store \<Rightarrow> BookInstanceCreateSchema \<Rightarrow> (uuid \<times> BookInstance) response \<times> store"
  where
  "create_bookinstance new_id s payload =
     (case books s (BookInstanceCreateSchema.book_id payload) of
        None \<Rightarrow>
          ((400, Inl (''Book with ID '' @ str_int (BookInstanceCreateSchema.book_id payload)
                        @ '' not found'')), s)
      | Some _ \<Rightarrow>
          let bi0 = \<lparr>book = BookInstanceCreateSchema.book_id payload,
                     BookInstance.imprint = BookInstanceCreateSchema.imprint payload,
                     BookInstance.due_back = BookInstanceCreateSchema.due_back payload,
                     borrower = None,
                     BookInstance.status = BookInstanceCreateSchema.status payload\<rparr>
          in case (case BookInstanceCreateSchema.borrower_id payload of
                     None \<Rightarrow> Inr bi0
                   | Some k \<Rightarrow>
                       if k \<noteq> 0
                       then (case get_user s k of
                               None \<Rightarrow> Inl k
                             | Some _ \<Rightarrow> Inr (bi0\<lparr>borrower := Some k\<rparr>))
                       else Inr bi0) of
               Inl k \<Rightarrow> ((400, Inl (''User with ID '' @ str_int k @ '' not found'')), s)
             | Inr bi1 \<Rightarrow>
                 ((201, Inr (new_id, bi1)),
                  s\<lparr>bookinstances := (bookinstances s)(new_id \<mapsto> bi1)\<rparr>))"

definition update_bookinstance ::
  "(string \<Rightarrow> uuid option) \<Rightarrow> store \<Rightarrow> string \<Rightarrow> BookInstanceUpdateSchema
     \<Rightarrow> (uuid \<times> BookInstance) response \<times> store" where
  "update_bookinstance UUID s instance_id payload =
     (case UUID instance_id of
        None \<Rightarrow> ((404, Inl ''Invalid UUID format''), s)
      | Some instance_uuid \<Rightarrow>
          (case bookinstances s instance_uuid of
             None \<Rightarrow> ((404, Inl ''Book instance not found''), s)
           | Some bi0 \<Rightarrow>
               (case (case BookInstanceUpdateSchema.book_id payload of
                        None \<Rightarrow> Inr bi0
                      | Some k \<Rightarrow>
                          (case books s k of
                             None \<Rightarrow> Inl k
                           | Some _ \<Rightarrow> Inr (bi0\<lparr>book := k\<rparr>))) of
                  Inl k \<Rightarrow> ((400, Inl (''Book with ID '' @ str_int k @ '' not found'')), s)
                | Inr bi1 \<Rightarrow>
                    let bi2 = (case BookInstanceUpdateSchema.imprint payload of
                                 None \<Rightarrow> bi1 | Some v \<Rightarrow> bi1\<lparr>BookInstance.imprint := v\<rparr>);
                        bi3 = (case BookInstanceUpdateSchema.due_back payload of
                                 None \<Rightarrow> bi2
                               | Some v \<Rightarrow> bi2\<lparr>BookInstance.due_back := Some v\<rparr>);
                        bi4 = (case BookInstanceUpdateSchema.status payload of
                                 None \<Rightarrow> bi3 | Some v \<Rightarrow> bi3\<lparr>BookInstance.status := v\<rparr>)
                    in case (case BookInstanceUpdateSchema.borrower_id payload of
                               None \<Rightarrow> Inr bi4
                             | Some k \<Rightarrow>
                                 if k = 0 then Inr (bi4\<lparr>borrower := None\<rparr>)
                                 else (case get_user s k of
                                         None \<Rightarrow> Inl k
                                       | Some _ \<Rightarrow> Inr (bi4\<lparr>borrower := Some k\<rparr>))) of
                         Inl k \<Rightarrow>
                           ((400, Inl (''User with ID '' @ str_int k @ '' not found'')), s)
                       | Inr bi5 \<Rightarrow>
                           ((200, Inr (instance_uuid, bi5)),
                            s\<lparr>bookinstances :=
                                 (bookinstances s)(instance_uuid \<mapsto> bi5)\<rparr>))))"

definition mark_returned ::
  "(string \<Rightarrow> uuid option) \<Rightarrow> request \<Rightarrow> store \<Rightarrow> string
     \<Rightarrow> (uuid \<times> BookInstance) response \<times> store" where
  "mark_returned UUID req s instance_id =
     (if \<not> has_perm (user req) ''catalog.can_mark_returned''
      then ((403, Inl ''You don't have permission to mark books as returned''), s)
      else
        (case UUID instance_id of
           None \<Rightarrow> ((404, Inl ''Invalid UUID format''), s)
         | Some instance_uuid \<Rightarrow>
             (case bookinstances s instance_uuid of
                None \<Rightarrow> ((404, Inl ''Book instance not found''), s)
              | Some bi0 \<Rightarrow>
                  let bi1 = bi0\<lparr>BookInstance.status := ''a'',
                                BookInstance.due_back := None,
                                borrower := None\<rparr>
                  in ((200, Inr (instance_uuid, bi1)),
                      s\<lparr>bookinstances := (bookinstances s)(instance_uuid \<mapsto> bi1)\<rparr>))))"

subsection \<open>The token endpoint\<close>

text \<open>
  The handler begins with three import statements. The third,
  \<^verbatim>\<open>from ninja.security import create_token\<close>, looks the name up in the module
  \<^verbatim>\<open>ninja.security\<close> and raises \<^verbatim>\<open>ImportError\<close> when the module has no such name;
  nothing in the handler catches it, so it leaves the handler and the framework answers
  with a server error. The module is the argument \<open>lib\<close>: the table of its functions
  from a user to a token, by name. \<open>ninja_security\<close> is the module of django-ninja: it
  holds the authentication classes (\<^verbatim>\<open>HttpBearer\<close>, \<^verbatim>\<open>APIKeyHeader\<close>,
  \<^verbatim>\<open>django_auth\<close> and the like) and no function that mints a token.
\<close>

datatype exception = ImportError

definition ninja_security :: "string \<Rightarrow> (User \<Rightarrow> string) option" where
  "ninja_security ident = None"

definition get_token ::
  "(string \<Rightarrow> (User \<Rightarrow> string) option) \<Rightarrow> store \<Rightarrow> LoginInput
     \<Rightarrow> exception + TokenOutput response" where
  "get_token lib s data =
     (case lib ''create_token'' of
        None \<Rightarrow> Inl ImportError
      | Some create_token \<Rightarrow>
          (case authenticate (users s) (LoginInput.username data) (LoginInput.password data) of
             None \<Rightarrow> Inr (401, Inl ''Invalid username or password'')
           | Some u \<Rightarrow> Inr (200, Inr \<lparr>access_token = create_token u\<rparr>)))"

subsection \<open>Routes behind the authentication check\<close>

text \<open>
  \<^verbatim>\<open>api = NinjaAPI(auth=django_auth)\<close> puts the authentication check in front of every
  route that does not set \<^verbatim>\<open>auth\<close> itself, the reading routes included; only the
  token route sets \<^verbatim>\<open>auth=None\<close>. A route function below is the check followed by
  the handler: its reply is 401 or what the handler returns. What the framework does with
  a returned success body afterwards (it validates the row against the response schema of
  the route) is not part of these functions; the statements about routes below are about
  their error replies and about the reply of the return workflow.
\<close>

definition POST_books ::
  "request \<Rightarrow> store \<Rightarrow> BookCreateSchema \<Rightarrow> (int \<times> Book) response \<times> store" where
  "POST_books req s payload = secured req s (create_book s payload)"

definition GET_bookinstance ::
  "(string \<Rightarrow> uuid option) \<Rightarrow> request \<Rightarrow> store \<Rightarrow> string
     \<Rightarrow> (uuid \<times> BookInstance) response \<times> store" where
  "GET_bookinstance UUID req s instance_id =
     secured req s (get_bookinstance UUID s instance_id, s)"

definition PUT_bookinstance ::
  "(string \<Rightarrow> uuid option) \<Rightarrow> request \<Rightarrow> store \<Rightarrow> string \<Rightarrow> BookInstanceUpdateSchema
     \<Rightarrow> (uuid \<times> BookInstance) response \<times> store" where
  "PUT_bookinstance UUID req s instance_id payload =
     secured req s (update_bookinstance UUID s instance_id payload)"

definition POST_bookinstance_return ::
  "(string \<Rightarrow> uuid option) \<Rightarrow> request \<Rightarrow> store \<Rightarrow> string
     \<Rightarrow> (uuid \<times> BookInstance) response \<times> store" where
  "POST_bookinstance_return UUID req s instance_id =
     secured req s (mark_returned UUID req s instance_id)"

subsection \<open>A small library for the examples\<close>

definition librarian :: User where
  "librarian = \<lparr>user_id = 1, User.username = ''librarian'', User.password = ''s3cret'',
     is_active = True, is_superuser = False,
     user_permissions = [''catalog.can_mark_returned'']\<rparr>"

definition reader :: User where
  "reader = \<lparr>user_id = 2, User.username = ''reader'', User.password = ''letmein'',
     is_active = True, is_superuser = False, user_permissions = []\<rparr>"

definition demo_token :: string where
  "demo_token = ''12345678-1234-5678-1234-567812345678''"

definition demo_uuid :: uuid where
  "demo_uuid = 0x12345678123456781234567812345678"

definition demo_instance :: BookInstance where
  "demo_instance = \<lparr>book = 1, BookInstance.imprint = ''Gollancz 1997'',
     BookInstance.due_back = Some 738000, borrower = Some 2, BookInstance.status = ''o''\<rparr>"

definition demo_book :: Book where
  "demo_book = \<lparr>Book.title = ''The Hobbit'', Book.summary = ''There and back again'',
     Book.isbn = ''9780261102217'', author = Some 1, language = Some 1\<rparr>"

definition demo_author :: Author where
  "demo_author = \<lparr>Author.first_name = ''John'', Author.last_name = ''Tolkien'',
     Author.date_of_birth = Some 691000, Author.date_of_death = None\<rparr>"

definition demo_library :: store where
  "demo_library =
     \<lparr>authors = [1 \<mapsto> demo_author],
      genres = [1 \<mapsto> \<lparr>Genre.name = ''Fantasy''\<rparr>, 2 \<mapsto> \<lparr>Genre.name = ''Poetry''\<rparr>],
      languages = [1 \<mapsto> \<lparr>Language.name = ''English''\<rparr>],
      books = [1 \<mapsto> demo_book],
      book_genre = (\<lambda>_. {})(1 := {1}),
      book_seq = 2,
      bookinstances = [demo_uuid \<mapsto> demo_instance],
      users = [librarian, reader]\<rparr>"

definition librarian_request :: request where
  "librarian_request = \<lparr>user = Some librarian\<rparr>"

definition reader_request :: request where
  "reader_request = \<lparr>user = Some reader\<rparr>"

section \<open>Properties\<close>

subsection \<open>Auxiliary facts\<close>

lemmas demo_defs = librarian_def reader_def demo_token_def demo_uuid_def demo_instance_def
  demo_book_def demo_author_def demo_library_def librarian_request_def reader_request_def

lemma UUID_hex_demo_token: "UUID_hex demo_token = Some demo_uuid"
  by (simp add: UUID_hex_def strip_braces_def hex_digit_def demo_token_def demo_uuid_def)

lemma UUID_hex_malformed: "UUID_hex ''not-a-uuid'' = None"
  by (simp add: UUID_hex_def strip_braces_def hex_digit_def)

lemma str_int_0: "str_int 0 = ''0''"
  by (simp add: str_int_def str_nat.simps)

lemma add_genres_books [simp]: "books (snd (add_genres bid gids s)) = books s"
  by (induction gids arbitrary: s) (auto split: option.splits)

lemma add_genres_frame:
  "authors (snd (add_genres bid gids s)) = authors s \<and>
   genres (snd (add_genres bid gids s)) = genres s \<and>
   languages (snd (add_genres bid gids s)) = languages s \<and>
   book_seq (snd (add_genres bid gids s)) = book_seq s \<and>
   bookinstances (snd (add_genres bid gids s)) = bookinstances s \<and>
   users (snd (add_genres bid gids s)) = users s"
  by (induction gids arbitrary: s) (auto split: option.splits)

lemma add_genres_all_known:
  "\<forall>g\<in>set gids. genres s g \<noteq> None \<Longrightarrow>
   add_genres bid gids s =
     (None, s\<lparr>book_genre := (book_genre s)(bid := book_genre s bid \<union> set gids)\<rparr>)"
proof (induction gids arbitrary: s)
  case Nil
  then show ?case by simp
next
  case (Cons g gids)
  from Cons.prems obtain row where row: "genres s g = Some row" by auto
  let ?s = "s\<lparr>book_genre := (book_genre s)(bid := insert g (book_genre s bid))\<rparr>"
  from Cons.prems have known: "\<forall>g\<in>set gids. genres ?s g \<noteq> None" by simp
  have upd: "(\<lambda>a. if a = bid then insert g (book_genre s bid \<union> set gids)
               else if a = bid then insert g (book_genre s bid) else book_genre s a) =
             (\<lambda>a. if a = bid then insert g (book_genre s bid \<union> set gids)
               else book_genre s a)"
    by (simp add: fun_eq_iff)
  from Cons.IH [OF known] row show ?case by (simp add: upd)
qed

lemma add_genres_None_iff:
  "fst (add_genres bid gids s) = None \<longleftrightarrow> (\<forall>g\<in>set gids. genres s g \<noteq> None)"
proof (induction gids arbitrary: s)
  case Nil
  then show ?case by simp
next
  case (Cons g gids)
  show ?case
  proof (cases "genres s g")
    case None
    then show ?thesis by auto
  next
    case (Some row)
    then show ?thesis using Cons.IH by simp
  qed
qed

lemma add_genres_other_book:
  "b \<noteq> bid \<Longrightarrow> book_genre (snd (add_genres bid gids s)) b = book_genre s b"
  by (induction gids arbitrary: s) (auto split: option.splits)

lemma create_book_unknown_author_rejected:
  "BookCreateSchema.author_id payload = Some k \<Longrightarrow> k \<noteq> 0 \<Longrightarrow> authors s k = None \<Longrightarrow>
   create_book s payload = ((400, Inl (''Author with ID '' @ str_int k @ '' not found'')), s)"
  by (simp add: create_book_def)

lemma create_book_unknown_language_rejected:
  "BookCreateSchema.author_id payload = None \<Longrightarrow>
   BookCreateSchema.language_id payload = Some k \<Longrightarrow> k \<noteq> 0 \<Longrightarrow> languages s k = None \<Longrightarrow>
   create_book s payload = ((400, Inl (''Language with ID '' @ str_int k @ '' not found'')), s)"
  by (simp add: create_book_def)

lemma create_book_unknown_genre_saved:
  assumes "BookCreateSchema.author_id payload = None"
    and "BookCreateSchema.language_id payload = None"
    and "\<exists>g\<in>set (BookCreateSchema.genre_ids payload). genres s g = None"
  shows "fst (fst (create_book s payload)) = 400 \<and>
         books (snd (create_book s payload)) (book_seq s) =
           Some \<lparr>Book.title = BookCreateSchema.title payload,
                 summary = BookCreateSchema.summary payload,
                 isbn = BookCreateSchema.isbn payload, author = None, language = None\<rparr>"
proof -
  let ?b = "\<lparr>Book.title = BookCreateSchema.title payload,
             summary = BookCreateSchema.summary payload,
             isbn = BookCreateSchema.isbn payload, author = None, language = None\<rparr>"
  let ?s1 = "s\<lparr>books := (books s)(book_seq s \<mapsto> ?b), book_seq := book_seq s + 1\<rparr>"
  let ?r = "add_genres (book_seq s) (BookCreateSchema.genre_ids payload) ?s1"
  from assms(3) have ne: "BookCreateSchema.genre_ids payload \<noteq> []" by auto
  from assms(3) have "fst ?r \<noteq> None"
    by (simp add: add_genres_None_iff)
  then obtain g where g: "fst ?r = Some g" by auto
  have bk: "books (snd ?r) (book_seq s) = Some ?b" by simp
  have "create_book s payload =
          ((400, Inl (''Genre with ID '' @ str_int g @ '' not found'')), snd ?r)"
    using assms(1,2) ne g by (simp add: create_book_def Let_def split_beta)
  with bk show ?thesis by simp
qed

subsection \<open>Creating a book with an unknown genre\<close>

text \<open>
  Claim C1 says that a \<open>create_book\<close> request whose \<open>genre_ids\<close> holds an identifier
  of no existing genre is rejected and leaves the database as it was: no book row and no
  genre link. The handler saves the book before it looks the genres up, and links every
  genre in front of the unknown one. In the example library (genre 1 exists, genre 99 does
  not, the next book key is 2) the request with \<open>genre_ids = [1, 99]\<close> is answered with
  400 and the message naming genre 99, and the database afterwards holds the new book
  under key 2, linked to genre 1. An unknown author or language, by contrast, is rejected
  before anything is saved (\<open>create_book_unknown_author_rejected\<close>,
  \<open>create_book_unknown_language_rejected\<close>), and the row is left behind for every
  payload with an unknown genre (\<open>create_book_unknown_genre_saved\<close>).
\<close>

theorem create_book_unknown_genre_persists_row:
  "POST_books librarian_request demo_library
     \<lparr>BookCreateSchema.title = ''Dune'', summary = ''Arrakis'', isbn = ''9780441013593'',
      author_id = None, language_id = None, genre_ids = [1, 99]\<rparr>
   = ((400, Inl ''Genre with ID 99 not found''),
      demo_library
        \<lparr>books := (books demo_library)
           (2 \<mapsto> \<lparr>Book.title = ''Dune'', summary = ''Arrakis'', isbn = ''9780441013593'',
                  author = None, language = None\<rparr>),
         book_genre := (book_genre demo_library)(2 := {1}),
         book_seq := 3\<rparr>)"
  by (simp add: POST_books_def secured_def django_auth_def create_book_def demo_defs
      str_int_def str_nat.simps)

subsection \<open>The return workflow\<close>

text \<open>
  Claim C3: for an existing instance and a caller holding the permission
  \<^verbatim>\<open>catalog.can_mark_returned\<close>, marking the instance as returned answers 200 with the
  instance whose status is \<open>''a''\<close> and whose due date and borrower are null, whatever
  these three fields held before, and stores that instance; the other fields and rows
  stay as they were. A second call on the resulting database gives the same reply and
  the same database as the first.
\<close>

theorem mark_returned_resets_and_is_idempotent:
  assumes "has_perm (user req) ''catalog.can_mark_returned''"
    and "UUID instance_id = Some u"
    and "bookinstances s u = Some bi"
  shows "POST_bookinstance_return UUID req s instance_id =
           ((200, Inr (u, bi\<lparr>BookInstance.status := ''a'', BookInstance.due_back := None,
                            borrower := None\<rparr>)),
            s\<lparr>bookinstances := (bookinstances s)
                 (u \<mapsto> bi\<lparr>BookInstance.status := ''a'', BookInstance.due_back := None,
                          borrower := None\<rparr>)\<rparr>)
       \<and> POST_bookinstance_return UUID req
             (snd (POST_bookinstance_return UUID req s instance_id)) instance_id =
           POST_bookinstance_return UUID req s instance_id"
proof -
  from assms(1) obtain usr where "user req = Some usr"
    by (auto simp: has_perm_def split: option.splits)
  with assms show ?thesis
    by (simp add: POST_bookinstance_return_def secured_def django_auth_def mark_returned_def
        Let_def)
qed

theorem mark_returned_resets_and_is_idempotent_witness:
  "has_perm (user librarian_request) ''catalog.can_mark_returned'' \<and>
   UUID_hex demo_token = Some demo_uuid \<and>
   bookinstances demo_library demo_uuid = Some demo_instance \<and>
   BookInstance.status demo_instance = ''o'' \<and>
   fst (POST_bookinstance_return UUID_hex librarian_request demo_library demo_token) =
     (200, Inr (demo_uuid, \<lparr>book = 1, BookInstance.imprint = ''Gollancz 1997'',
        BookInstance.due_back = None, borrower = None, BookInstance.status = ''a''\<rparr>)) \<and>
   bookinstances (snd (POST_bookinstance_return UUID_hex librarian_request demo_library demo_token))
     demo_uuid =
     Some \<lparr>book = 1, BookInstance.imprint = ''Gollancz 1997'',
        BookInstance.due_back = None, borrower = None, BookInstance.status = ''a''\<rparr>"
proof -
  have p: "has_perm (user librarian_request) ''catalog.can_mark_returned''"
    by (simp add: has_perm_def librarian_request_def librarian_def)
  have i: "bookinstances demo_library demo_uuid = Some demo_instance"
    by (simp add: demo_library_def)
  show ?thesis
    using p i UUID_hex_demo_token
      mark_returned_resets_and_is_idempotent
        [where UUID = UUID_hex and instance_id = demo_token, OF p UUID_hex_demo_token i]
    by (simp add: demo_instance_def)
qed

text \<open>
  Claim C10: the permission is checked before the token is parsed or the instance looked
  up. An authenticated caller without \<^verbatim>\<open>catalog.can_mark_returned\<close> gets 403 for
  every token, well-formed or not, of an existing instance or not, with every parser,
  and the database is unchanged.
\<close>

theorem mark_returned_without_permission:
  assumes "django_auth req = Some u"
    and "\<not> has_perm (user req) ''catalog.can_mark_returned''"
  shows "POST_bookinstance_return UUID req s instance_id =
           ((403, Inl ''You don't have permission to mark books as returned''), s)"
  using assms by (simp add: POST_bookinstance_return_def secured_def mark_returned_def)

theorem mark_returned_without_permission_witness:
  "django_auth reader_request = Some reader \<and>
   \<not> has_perm (user reader_request) ''catalog.can_mark_returned'' \<and>
   POST_bookinstance_return UUID_hex reader_request demo_library ''not-a-uuid'' =
     ((403, Inl ''You don't have permission to mark books as returned''), demo_library) \<and>
   POST_bookinstance_return UUID_hex reader_request demo_library demo_token =
     ((403, Inl ''You don't have permission to mark books as returned''), demo_library)"
proof -
  have a: "django_auth reader_request = Some reader"
    by (simp add: django_auth_def reader_request_def)
  have p: "\<not> has_perm (user reader_request) ''catalog.can_mark_returned''"
    by (simp add: has_perm_def reader_request_def reader_def)
  show ?thesis
    using a p mark_returned_without_permission [OF a p, of UUID_hex demo_library "''not-a-uuid''"]
      mark_returned_without_permission [OF a p, of UUID_hex demo_library demo_token]
    by simp
qed

subsection \<open>Reading a book instance\<close>

lemma UUID_hex_unknown_token:
  "UUID_hex ''12345678-1234-5678-1234-567812345679'' = Some 0x12345678123456781234567812345679"
  by (simp add: UUID_hex_def strip_braces_def hex_digit_def)

lemma get_bookinstance_rejected_token:
  "UUID instance_id = None \<Longrightarrow>
   get_bookinstance UUID s instance_id = (404, Inl ''Invalid UUID format'')"
  by (simp add: get_bookinstance_def)

lemma get_bookinstance_unknown_token:
  "UUID instance_id = Some u \<Longrightarrow> bookinstances s u = None \<Longrightarrow>
   get_bookinstance UUID s instance_id = (404, Inl ''Book instance not found'')"
  by (simp add: get_bookinstance_def)

text \<open>
  Claim C7 says that \<^verbatim>\<open>GET /bookinstances/{id}\<close> answers every string that is not a
  well-formed token with 404. The route stands behind the authentication check of the
  whole API: a request without a session user is answered with 401 whatever the token is,
  here for the token \<^verbatim>\<open>not-a-uuid\<close>.
\<close>

theorem GET_bookinstance_without_session_is_401:
  "UUID_hex ''not-a-uuid'' = None \<and>
   GET_bookinstance UUID_hex \<lparr>user = None\<rparr> demo_library ''not-a-uuid'' =
     ((401, Inl ''Unauthorized''), demo_library) \<and>
   fst (fst (GET_bookinstance UUID_hex \<lparr>user = None\<rparr> demo_library ''not-a-uuid'')) \<noteq> 404"
  by (simp add: GET_bookinstance_def secured_def django_auth_def UUID_hex_malformed)

text \<open>
  Claim C7 as amended: a request without a session user is answered with 401; for an
  authenticated request a token that the parser rejects is answered with 404 and the
  message \<^verbatim>\<open>Invalid UUID format\<close>, the status that a well-formed token of no existing
  instance gets (404, \<^verbatim>\<open>Book instance not found\<close>): neither a server error nor a
  separate bad-request reply. The database is unchanged.
\<close>

theorem GET_bookinstance_malformed_token:
  "(django_auth req = None \<longrightarrow>
      GET_bookinstance UUID req s instance_id = ((401, Inl ''Unauthorized''), s)) \<and>
   (django_auth req \<noteq> None \<longrightarrow> UUID instance_id = None \<longrightarrow>
      GET_bookinstance UUID req s instance_id = ((404, Inl ''Invalid UUID format''), s) \<and>
      (\<forall>t u. UUID t = Some u \<longrightarrow> bookinstances s u = None \<longrightarrow>
         GET_bookinstance UUID req s t = ((404, Inl ''Book instance not found''), s) \<and>
         fst (fst (GET_bookinstance UUID req s t)) =
           fst (fst (GET_bookinstance UUID req s instance_id))))"
  by (auto simp: GET_bookinstance_def secured_def get_bookinstance_def)

theorem GET_bookinstance_malformed_token_witness:
  "django_auth reader_request \<noteq> None \<and>
   UUID_hex ''not-a-uuid'' = None \<and>
   GET_bookinstance UUID_hex reader_request demo_library ''not-a-uuid'' =
     ((404, Inl ''Invalid UUID format''), demo_library) \<and>
   UUID_hex ''12345678-1234-5678-1234-567812345679'' = Some 0x12345678123456781234567812345679 \<and>
   bookinstances demo_library 0x12345678123456781234567812345679 = None \<and>
   GET_bookinstance UUID_hex reader_request demo_library ''12345678-1234-5678-1234-567812345679'' =
     ((404, Inl ''Book instance not found''), demo_library)"
proof -
  have a: "django_auth reader_request \<noteq> None"
    by (simp add: django_auth_def reader_request_def)
  have n: "bookinstances demo_library 0x12345678123456781234567812345679 = None"
    by (simp add: demo_library_def demo_uuid_def)
  from GET_bookinstance_malformed_token
    [of reader_request UUID_hex demo_library "''not-a-uuid''"] a UUID_hex_malformed
  have m: "GET_bookinstance UUID_hex reader_request demo_library ''not-a-uuid'' =
             ((404, Inl ''Invalid UUID format''), demo_library)"
    and k: "\<forall>t u. UUID_hex t = Some u \<longrightarrow> bookinstances demo_library u = None \<longrightarrow>
             GET_bookinstance UUID_hex reader_request demo_library t =
               ((404, Inl ''Book instance not found''), demo_library)"
    by blast+
  from k UUID_hex_unknown_token n
  have "GET_bookinstance UUID_hex reader_request demo_library
          ''12345678-1234-5678-1234-567812345679'' =
        ((404, Inl ''Book instance not found''), demo_library)"
    by blast
  with a m n UUID_hex_malformed UUID_hex_unknown_token show ?thesis by simp
qed

subsection \<open>Updating a book instance: the failure kinds\<close>

text \<open>
  Claim C2 says that \<^verbatim>\<open>PUT /bookinstances/{uuid}\<close> answers a malformed token and a
  token of no existing instance with 400, and that 400 and 401 are its only failure
  kinds. The handler answers both with 404: in the example library the token
  \<^verbatim>\<open>not-a-uuid\<close> and the well-formed token of no instance both get 404.
\<close>

theorem PUT_bookinstance_bad_token_is_404:
  "fst (fst (PUT_bookinstance UUID_hex librarian_request demo_library ''not-a-uuid''
       \<lparr>book_id = None, imprint = Some ''Folio'', due_back = None, borrower_id = None,
        status = None\<rparr>)) = 404 \<and>
   fst (fst (PUT_bookinstance UUID_hex librarian_request demo_library
       ''12345678-1234-5678-1234-567812345679''
       \<lparr>book_id = None, imprint = Some ''Folio'', due_back = None, borrower_id = None,
        status = None\<rparr>)) = 404"
  by (simp add: PUT_bookinstance_def secured_def django_auth_def update_bookinstance_def
      librarian_request_def UUID_hex_def strip_braces_def hex_digit_def demo_library_def demo_uuid_def)

text \<open>
  Claim C2 as amended: an unauthenticated request is answered with 401 before the handler
  runs; for an authenticated request a token that the parser rejects gets 404 with the
  message \<^verbatim>\<open>Invalid UUID format\<close> and a token of no existing instance gets 404 with the
  message \<^verbatim>\<open>Book instance not found\<close>, never 400; 400 is the reply to a \<open>book_id\<close>
  that does not resolve, for an existing instance. The database is unchanged in all these
  cases. So 404 is a failure kind of the route, beside 400 and 401.
\<close>

theorem PUT_bookinstance_failure_kinds:
  "(django_auth req = None \<longrightarrow>
      PUT_bookinstance UUID req s instance_id payload = ((401, Inl ''Unauthorized''), s)) \<and>
   (django_auth req \<noteq> None \<longrightarrow>
      (UUID instance_id = None \<longrightarrow>
         PUT_bookinstance UUID req s instance_id payload =
           ((404, Inl ''Invalid UUID format''), s)) \<and>
      (\<forall>u. UUID instance_id = Some u \<longrightarrow> bookinstances s u = None \<longrightarrow>
         PUT_bookinstance UUID req s instance_id payload =
           ((404, Inl ''Book instance not found''), s)) \<and>
      (\<forall>u bi k. UUID instance_id = Some u \<longrightarrow> bookinstances s u = Some bi \<longrightarrow>
         BookInstanceUpdateSchema.book_id payload = Some k \<longrightarrow> books s k = None \<longrightarrow>
         PUT_bookinstance UUID req s instance_id payload =
           ((400, Inl (''Book with ID '' @ str_int k @ '' not found'')), s)))"
  by (auto simp: PUT_bookinstance_def secured_def update_bookinstance_def)

theorem PUT_bookinstance_failure_kinds_witness:
  "django_auth librarian_request \<noteq> None \<and>
   UUID_hex ''not-a-uuid'' = None \<and>
   PUT_bookinstance UUID_hex librarian_request demo_library ''not-a-uuid''
       \<lparr>book_id = None, imprint = Some ''Folio'', due_back = None, borrower_id = None,
        status = None\<rparr> = ((404, Inl ''Invalid UUID format''), demo_library) \<and>
   UUID_hex demo_token = Some demo_uuid \<and>
   bookinstances demo_library demo_uuid = Some demo_instance \<and>
   books demo_library 9 = None \<and>
   PUT_bookinstance UUID_hex librarian_request demo_library demo_token
       \<lparr>book_id = Some 9, imprint = None, due_back = None, borrower_id = None,
        status = None\<rparr> = ((400, Inl ''Book with ID 9 not found''), demo_library) \<and>
   django_auth \<lparr>user = None\<rparr> = None \<and>
   PUT_bookinstance UUID_hex \<lparr>user = None\<rparr> demo_library demo_token
       \<lparr>book_id = None, imprint = Some ''Folio'', due_back = None, borrower_id = None,
        status = None\<rparr> = ((401, Inl ''Unauthorized''), demo_library)"
proof -
  define P where "P = \<lparr>BookInstanceUpdateSchema.book_id = None, imprint = Some ''Folio'',
    due_back = None, borrower_id = None, status = None\<rparr>"
  define Q where "Q = \<lparr>BookInstanceUpdateSchema.book_id = Some 9, imprint = None,
    due_back = None, borrower_id = None, status = None\<rparr>"
  have a: "django_auth librarian_request \<noteq> None"
    by (simp add: django_auth_def librarian_request_def)
  have n: "django_auth \<lparr>user = None\<rparr> = None"
    by (simp add: django_auth_def)
  have i: "bookinstances demo_library demo_uuid = Some demo_instance"
    and b: "books demo_library 9 = None"
    by (simp_all add: demo_library_def)
  have q: "BookInstanceUpdateSchema.book_id Q = Some 9"
    by (simp add: Q_def)
  have s9: "str_int 9 = ''9''"
    by (simp add: str_int_def str_nat.simps)
  from PUT_bookinstance_failure_kinds
    [of librarian_request UUID_hex demo_library "''not-a-uuid''" P] a UUID_hex_malformed
  have A: "PUT_bookinstance UUID_hex librarian_request demo_library ''not-a-uuid'' P =
             ((404, Inl ''Invalid UUID format''), demo_library)"
    by blast
  from PUT_bookinstance_failure_kinds [of librarian_request UUID_hex demo_library demo_token Q]
    a UUID_hex_demo_token i q b
  have "PUT_bookinstance UUID_hex librarian_request demo_library demo_token Q =
          ((400, Inl (''Book with ID '' @ str_int 9 @ '' not found'')), demo_library)"
    by blast
  then have B: "PUT_bookinstance UUID_hex librarian_request demo_library demo_token Q =
          ((400, Inl ''Book with ID 9 not found''), demo_library)"
    by (simp add: s9)
  from PUT_bookinstance_failure_kinds [of "\<lparr>user = None\<rparr>" UUID_hex demo_library demo_token P] n
  have C: "PUT_bookinstance UUID_hex \<lparr>user = None\<rparr> demo_library demo_token P =
             ((401, Inl ''Unauthorized''), demo_library)"
    by blast
  from a n i b A B C UUID_hex_malformed UUID_hex_demo_token show ?thesis
    by (simp add: P_def Q_def)
qed

subsection \<open>Updates leave absent fields alone\<close>

lemma update_author_absent:
  assumes "authors s aid = Some a"
  shows "\<exists>a'. authors (snd (update_author s aid pa)) aid = Some a' \<and>
     (AuthorUpdateSchema.first_name pa = None \<longrightarrow> Author.first_name a' = Author.first_name a) \<and>
     (AuthorUpdateSchema.last_name pa = None \<longrightarrow> Author.last_name a' = Author.last_name a) \<and>
     (AuthorUpdateSchema.date_of_birth pa = None \<longrightarrow>
        Author.date_of_birth a' = Author.date_of_birth a) \<and>
     (AuthorUpdateSchema.date_of_death pa = None \<longrightarrow>
        Author.date_of_death a' = Author.date_of_death a)"
  using assms
  by (cases "AuthorUpdateSchema.first_name pa"; cases "AuthorUpdateSchema.last_name pa";
      cases "AuthorUpdateSchema.date_of_birth pa"; cases "AuthorUpdateSchema.date_of_death pa")
    (simp_all add: update_author_def Let_def)

lemma update_genre_absent:
  assumes "genres s gid = Some g"
  shows "\<exists>g'. genres (snd (update_genre s gid pg)) gid = Some g' \<and>
     (GenreUpdateSchema.name pg = None \<longrightarrow> Genre.name g' = Genre.name g)"
  using assms by (simp add: update_genre_def Let_def split: option.splits)

lemma update_language_absent:
  assumes "languages s lid = Some l"
  shows "\<exists>l'. languages (snd (update_language s lid pl)) lid = Some l' \<and>
     (LanguageUpdateSchema.name pl = None \<longrightarrow> Language.name l' = Language.name l)"
  using assms by (simp add: update_language_def Let_def split: option.splits)

lemma update_book_absent:
  assumes "books s bid = Some b"
  shows "\<exists>b'. books (snd (update_book s bid pb)) bid = Some b' \<and>
     (BookUpdateSchema.title pb = None \<longrightarrow> Book.title b' = Book.title b) \<and>
     (BookUpdateSchema.summary pb = None \<longrightarrow> Book.summary b' = Book.summary b) \<and>
     (BookUpdateSchema.isbn pb = None \<longrightarrow> Book.isbn b' = Book.isbn b) \<and>
     (BookUpdateSchema.author_id pb = None \<longrightarrow> author b' = author b) \<and>
     (BookUpdateSchema.language_id pb = None \<longrightarrow> language b' = language b) \<and>
     (BookUpdateSchema.genre_ids pb = None \<longrightarrow>
        book_genre (snd (update_book s bid pb)) bid = book_genre s bid)"
proof -
  show ?thesis
    using assms
    by (cases "BookUpdateSchema.title pb"; cases "BookUpdateSchema.summary pb";
        cases "BookUpdateSchema.isbn pb"; cases "BookUpdateSchema.author_id pb";
        cases "BookUpdateSchema.language_id pb"; cases "BookUpdateSchema.genre_ids pb")
      (simp_all add: update_book_def Let_def split_beta split: option.splits)
qed

lemma update_bookinstance_absent:
  assumes "UUID instance_id = Some u" and "bookinstances s u = Some bi"
  shows "\<exists>bi'. bookinstances (snd (update_bookinstance UUID s instance_id pi)) u = Some bi' \<and>
     (BookInstanceUpdateSchema.book_id pi = None \<longrightarrow> book bi' = book bi) \<and>
     (BookInstanceUpdateSchema.imprint pi = None \<longrightarrow>
        BookInstance.imprint bi' = BookInstance.imprint bi) \<and>
     (BookInstanceUpdateSchema.due_back pi = None \<longrightarrow>
        BookInstance.due_back bi' = BookInstance.due_back bi) \<and>
     (BookInstanceUpdateSchema.borrower_id pi = None \<longrightarrow> borrower bi' = borrower bi) \<and>
     (BookInstanceUpdateSchema.status pi = None \<longrightarrow>
        BookInstance.status bi' = BookInstance.status bi)"
  using assms
  by (cases "BookInstanceUpdateSchema.book_id pi"; cases "BookInstanceUpdateSchema.imprint pi";
      cases "BookInstanceUpdateSchema.due_back pi"; cases "BookInstanceUpdateSchema.status pi";
      cases "BookInstanceUpdateSchema.borrower_id pi")
    (simp_all add: update_bookinstance_def Let_def split: option.splits)

text \<open>
  Claim C4: for each of the five resource kinds and every existing record, a field that
  is absent from the update payload (\<open>None\<close>) has after the update the value it had
  before, whatever the other fields of the payload are and whether the update succeeds or
  is rejected; the record is still there. For a book the genre links count as the field
  \<open>genre_ids\<close>.
\<close>

theorem update_keeps_absent_fields:
  "(\<forall>a. authors s aid = Some a \<longrightarrow>
      (\<exists>a'. authors (snd (update_author s aid pa)) aid = Some a' \<and>
         (AuthorUpdateSchema.first_name pa = None \<longrightarrow>
            Author.first_name a' = Author.first_name a) \<and>
         (AuthorUpdateSchema.last_name pa = None \<longrightarrow>
            Author.last_name a' = Author.last_name a) \<and>
         (AuthorUpdateSchema.date_of_birth pa = None \<longrightarrow>
            Author.date_of_birth a' = Author.date_of_birth a) \<and>
         (AuthorUpdateSchema.date_of_death pa = None \<longrightarrow>
            Author.date_of_death a' = Author.date_of_death a))) \<and>
   (\<forall>g. genres s gid = Some g \<longrightarrow>
      (\<exists>g'. genres (snd (update_genre s gid pg)) gid = Some g' \<and>
         (GenreUpdateSchema.name pg = None \<longrightarrow> Genre.name g' = Genre.name g))) \<and>
   (\<forall>l. languages s lid = Some l \<longrightarrow>
      (\<exists>l'. languages (snd (update_language s lid pl)) lid = Some l' \<and>
         (LanguageUpdateSchema.name pl = None \<longrightarrow> Language.name l' = Language.name l))) \<and>
   (\<forall>b. books s bid = Some b \<longrightarrow>
      (\<exists>b'. books (snd (update_book s bid pb)) bid = Some b' \<and>
         (BookUpdateSchema.title pb = None \<longrightarrow> Book.title b' = Book.title b) \<and>
         (BookUpdateSchema.summary pb = None \<longrightarrow> Book.summary b' = Book.summary b) \<and>
         (BookUpdateSchema.isbn pb = None \<longrightarrow> Book.isbn b' = Book.isbn b) \<and>
         (BookUpdateSchema.author_id pb = None \<longrightarrow> author b' = author b) \<and>
         (BookUpdateSchema.language_id pb = None \<longrightarrow> language b' = language b) \<and>
         (BookUpdateSchema.genre_ids pb = None \<longrightarrow>
            book_genre (snd (update_book s bid pb)) bid = book_genre s bid))) \<and>
   (\<forall>u bi. UUID instance_id = Some u \<longrightarrow> bookinstances s u = Some bi \<longrightarrow>
      (\<exists>bi'. bookinstances (snd (update_bookinstance UUID s instance_id pi)) u = Some bi' \<and>
         (BookInstanceUpdateSchema.book_id pi = None \<longrightarrow> book bi' = book bi) \<and>
         (BookInstanceUpdateSchema.imprint pi = None \<longrightarrow>
            BookInstance.imprint bi' = BookInstance.imprint bi) \<and>
         (BookInstanceUpdateSchema.due_back pi = None \<longrightarrow>
            BookInstance.due_back bi' = BookInstance.due_back bi) \<and>
         (BookInstanceUpdateSchema.borrower_id pi = None \<longrightarrow> borrower bi' = borrower bi) \<and>
         (BookInstanceUpdateSchema.status pi = None \<longrightarrow>
            BookInstance.status bi' = BookInstance.status bi)))"
proof (intro conjI allI impI)
  fix a assume "authors s aid = Some a"
  then show "\<exists>a'. authors (snd (update_author s aid pa)) aid = Some a' \<and>
         (AuthorUpdateSchema.first_name pa = None \<longrightarrow>
            Author.first_name a' = Author.first_name a) \<and>
         (AuthorUpdateSchema.last_name pa = None \<longrightarrow>
            Author.last_name a' = Author.last_name a) \<and>
         (AuthorUpdateSchema.date_of_birth pa = None \<longrightarrow>
            Author.date_of_birth a' = Author.date_of_birth a) \<and>
         (AuthorUpdateSchema.date_of_death pa = None \<longrightarrow>
            Author.date_of_death a' = Author.date_of_death a)"
    by (rule update_author_absent)
next
  fix g assume "genres s gid = Some g"
  then show "\<exists>g'. genres (snd (update_genre s gid pg)) gid = Some g' \<and>
         (GenreUpdateSchema.name pg = None \<longrightarrow> Genre.name g' = Genre.name g)"
    by (rule update_genre_absent)
next
  fix l assume "languages s lid = Some l"
  then show "\<exists>l'. languages (snd (update_language s lid pl)) lid = Some l' \<and>
         (LanguageUpdateSchema.name pl = None \<longrightarrow> Language.name l' = Language.name l)"
    by (rule update_language_absent)
next
  fix b assume "books s bid = Some b"
  then show "\<exists>b'. books (snd (update_book s bid pb)) bid = Some b' \<and>
         (BookUpdateSchema.title pb = None \<longrightarrow> Book.title b' = Book.title b) \<and>
         (BookUpdateSchema.summary pb = None \<longrightarrow> Book.summary b' = Book.summary b) \<and>
         (BookUpdateSchema.isbn pb = None \<longrightarrow> Book.isbn b' = Book.isbn b) \<and>
         (BookUpdateSchema.author_id pb = None \<longrightarrow> author b' = author b) \<and>
         (BookUpdateSchema.language_id pb = None \<longrightarrow> language b' = language b) \<and>
         (BookUpdateSchema.genre_ids pb = None \<longrightarrow>
            book_genre (snd (update_book s bid pb)) bid = book_genre s bid)"
    by (rule update_book_absent)
next
  fix u bi assume "UUID instance_id = Some u" and "bookinstances s u = Some bi"
  then show "\<exists>bi'. bookinstances (snd (update_bookinstance UUID s instance_id pi)) u = Some bi' \<and>
         (BookInstanceUpdateSchema.book_id pi = None \<longrightarrow> book bi' = book bi) \<and>
         (BookInstanceUpdateSchema.imprint pi = None \<longrightarrow>
            BookInstance.imprint bi' = BookInstance.imprint bi) \<and>
         (BookInstanceUpdateSchema.due_back pi = None \<longrightarrow>
            BookInstance.due_back bi' = BookInstance.due_back bi) \<and>
         (BookInstanceUpdateSchema.borrower_id pi = None \<longrightarrow> borrower bi' = borrower bi) \<and>
         (BookInstanceUpdateSchema.status pi = None \<longrightarrow>
            BookInstance.status bi' = BookInstance.status bi)"
    by (rule update_bookinstance_absent)
qed

theorem update_keeps_absent_fields_witness:
  "authors demo_library 1 = Some demo_author \<and>
   map_option Author.last_name
     (authors (snd (update_author demo_library 1
        \<lparr>first_name = Some ''Ronald'', last_name = None, date_of_birth = None,
         date_of_death = None\<rparr>)) 1) = Some ''Tolkien'' \<and>
   books demo_library 1 = Some demo_book \<and>
   map_option Book.isbn
     (books (snd (update_book demo_library 1
        \<lparr>title = Some ''The Hobbit, or There and Back Again'', summary = None, isbn = None,
         author_id = None, language_id = None, genre_ids = None\<rparr>)) 1)
     = Some ''9780261102217'' \<and>
   book_genre (snd (update_book demo_library 1
        \<lparr>title = Some ''The Hobbit, or There and Back Again'', summary = None, isbn = None,
         author_id = None, language_id = None, genre_ids = None\<rparr>)) 1 = {1} \<and>
   UUID_hex demo_token = Some demo_uuid \<and>
   bookinstances demo_library demo_uuid = Some demo_instance \<and>
   map_option borrower
     (bookinstances (snd (update_bookinstance UUID_hex demo_library demo_token
        \<lparr>book_id = None, imprint = None, due_back = None, borrower_id = None,
         status = Some ''m''\<rparr>)) demo_uuid) = Some (Some 2)"
proof -
  have a: "authors demo_library 1 = Some demo_author"
    and b: "books demo_library 1 = Some demo_book"
    and i: "bookinstances demo_library demo_uuid = Some demo_instance"
    and g: "book_genre demo_library 1 = {1}"
    by (simp_all add: demo_library_def)
  have f: "Author.last_name demo_author = ''Tolkien''" "Book.isbn demo_book = ''9780261102217''"
    "borrower demo_instance = Some 2"
    by (simp_all add: demo_author_def demo_book_def demo_instance_def)
  show ?thesis
    using a b i g f UUID_hex_demo_token
      update_keeps_absent_fields [of demo_library 1
        "\<lparr>first_name = Some ''Ronald'', last_name = None, date_of_birth = None,
          date_of_death = None\<rparr>"
        1 "\<lparr>GenreUpdateSchema.name = None\<rparr>" 1 "\<lparr>LanguageUpdateSchema.name = None\<rparr>" 1
        "\<lparr>title = Some ''The Hobbit, or There and Back Again'', summary = None, isbn = None,
          author_id = None, language_id = None, genre_ids = None\<rparr>"
        UUID_hex demo_token
        "\<lparr>book_id = None, imprint = None, due_back = None, borrower_id = None,
          status = Some ''m''\<rparr>"]
    by auto
qed

subsection \<open>Updating the genres of a book\<close>

lemma update_book_absent_genre_ids:
  assumes "books s bid = Some b" and "BookUpdateSchema.genre_ids p = None"
  shows "book_genre (snd (update_book s bid p)) bid = book_genre s bid"
  using update_book_absent [OF assms(1), of p] assms(2) by blast

text \<open>When the author and the language of the payload resolve, the handler saves the row
  and reaches the genre step.\<close>

lemma update_book_saved:
  assumes "books s bid = Some b"
    and "\<forall>k. BookUpdateSchema.author_id p = Some k \<longrightarrow> authors s k \<noteq> None"
    and "\<forall>k. BookUpdateSchema.language_id p = Some k \<longrightarrow> languages s k \<noteq> None"
  shows "\<exists>b5. update_book s bid p =
      (let s1 = s\<lparr>books := (books s)(bid \<mapsto> b5)\<rparr>
       in case BookUpdateSchema.genre_ids p of
            None \<Rightarrow> ((200, Inr (bid, b5)), s1)
          | Some gids \<Rightarrow>
              (case add_genres bid gids (s1\<lparr>book_genre := (book_genre s1)(bid := {})\<rparr>) of
                 (Some g, s2) \<Rightarrow>
                   ((400, Inl (''Genre with ID '' @ str_int g @ '' not found'')), s2)
               | (None, s2) \<Rightarrow> ((200, Inr (bid, b5)), s2)))"
  using assms
  by (cases "BookUpdateSchema.author_id p"; cases "BookUpdateSchema.language_id p")
    (auto simp: update_book_def Let_def)

lemma update_book_rejected_early:
  assumes "books s bid = Some b"
    and "(\<exists>k. BookUpdateSchema.author_id p = Some k \<and> authors s k = None) \<or>
         (\<exists>k. BookUpdateSchema.language_id p = Some k \<and> languages s k = None)"
  shows "fst (fst (update_book s bid p)) = 400"
  using assms
  by (cases "BookUpdateSchema.author_id p"; cases "BookUpdateSchema.language_id p")
    (auto simp: update_book_def Let_def split: option.splits)

lemma update_book_replaces_genres:
  assumes b: "books s bid = Some b"
    and gs: "BookUpdateSchema.genre_ids p = Some gids"
    and au: "\<forall>k. BookUpdateSchema.author_id p = Some k \<longrightarrow> authors s k \<noteq> None"
    and la: "\<forall>k. BookUpdateSchema.language_id p = Some k \<longrightarrow> languages s k \<noteq> None"
  shows "(fst (fst (update_book s bid p)) = 200 \<longleftrightarrow> (\<forall>g\<in>set gids. genres s g \<noteq> None)) \<and>
         ((\<forall>g\<in>set gids. genres s g \<noteq> None) \<longrightarrow>
            book_genre (snd (update_book s bid p)) bid = set gids)"
proof -
  from update_book_saved [OF b au la] obtain b5 where
    u: "update_book s bid p =
      (let s1 = s\<lparr>books := (books s)(bid \<mapsto> b5)\<rparr>
       in case BookUpdateSchema.genre_ids p of
            None \<Rightarrow> ((200, Inr (bid, b5)), s1)
          | Some gids \<Rightarrow>
              (case add_genres bid gids (s1\<lparr>book_genre := (book_genre s1)(bid := {})\<rparr>) of
                 (Some g, s2) \<Rightarrow>
                   ((400, Inl (''Genre with ID '' @ str_int g @ '' not found'')), s2)
               | (None, s2) \<Rightarrow> ((200, Inr (bid, b5)), s2)))"
    by blast
  let ?s1 = "s\<lparr>books := (books s)(bid \<mapsto> b5), book_genre := (book_genre s)(bid := {})\<rparr>"
  have u': "update_book s bid p =
      (case add_genres bid gids ?s1 of
         (Some g, s2) \<Rightarrow> ((400, Inl (''Genre with ID '' @ str_int g @ '' not found'')), s2)
       | (None, s2) \<Rightarrow> ((200, Inr (bid, b5)), s2))"
    using u gs by (simp add: Let_def)
  have iff: "fst (add_genres bid gids ?s1) = None \<longleftrightarrow> (\<forall>g\<in>set gids. genres s g \<noteq> None)"
    by (simp add: add_genres_None_iff)
  have st: "fst (fst (update_book s bid p)) = 200 \<longleftrightarrow> fst (add_genres bid gids ?s1) = None"
    by (cases "add_genres bid gids ?s1") (auto simp: u' split: option.splits)
  have rep: "book_genre (snd (update_book s bid p)) bid = set gids"
    if k: "\<forall>g\<in>set gids. genres s g \<noteq> None"
  proof -
    from k have "\<forall>g\<in>set gids. genres ?s1 g \<noteq> None" by simp
    from add_genres_all_known [OF this, of bid] show ?thesis
      by (simp add: u')
  qed
  show ?thesis using st iff rep by auto
qed

text \<open>
  Claim C5 says that for every existing book a present \<open>genre_ids\<close> clears the genre
  links and replaces them by exactly the listed genres, so that the empty list leaves
  none. In the example library book 1 is linked to genre 1, genre 2 exists, genre 99 and
  language 3 do not. An update with the unknown language 3 and \<open>genre_ids = []\<close> is
  rejected with 400 before the links are touched: book 1 keeps genre 1. An update with
  \<open>genre_ids = [2, 99]\<close> is answered with 400 naming genre 99, and book 1 is left with
  genre 2 alone.
\<close>

theorem update_book_genre_ids_not_replaced:
  "books demo_library 1 = Some demo_book \<and>
   book_genre demo_library 1 = {1} \<and>
   update_book demo_library 1
      \<lparr>title = None, summary = None, isbn = None, author_id = None, language_id = Some 3,
       genre_ids = Some []\<rparr>
     = ((400, Inl ''Language with ID 3 not found''), demo_library) \<and>
   fst (update_book demo_library 1
      \<lparr>title = None, summary = None, isbn = None, author_id = None, language_id = None,
       genre_ids = Some [2, 99]\<rparr>) = (400, Inl ''Genre with ID 99 not found'') \<and>
   book_genre (snd (update_book demo_library 1
      \<lparr>title = None, summary = None, isbn = None, author_id = None, language_id = None,
       genre_ids = Some [2, 99]\<rparr>)) 1 = {2}"
  by (simp add: update_book_def demo_library_def str_int_def str_nat.simps)

text \<open>
  Claim C5 as amended: for an existing book, \<open>update_book\<close> leaves the genre links of
  the book as they are when \<open>genre_ids\<close> is absent from the payload. When \<open>genre_ids\<close> is
  present (the empty list included) and the author, the language and every genre that the
  payload names exist, the update answers 200 and the links of the book are exactly the
  listed genres; the empty list then leaves the book without genre links.
\<close>

theorem update_book_genre_ids:
  assumes "books s bid = Some b"
  shows "(BookUpdateSchema.genre_ids p = None \<longrightarrow>
            book_genre (snd (update_book s bid p)) bid = book_genre s bid) \<and>
         (\<forall>gids. BookUpdateSchema.genre_ids p = Some gids \<longrightarrow>
            (\<forall>k. BookUpdateSchema.author_id p = Some k \<longrightarrow> authors s k \<noteq> None) \<longrightarrow>
            (\<forall>k. BookUpdateSchema.language_id p = Some k \<longrightarrow> languages s k \<noteq> None) \<longrightarrow>
            (\<forall>g\<in>set gids. genres s g \<noteq> None) \<longrightarrow>
            fst (fst (update_book s bid p)) = 200 \<and>
            book_genre (snd (update_book s bid p)) bid = set gids) \<and>
         (BookUpdateSchema.genre_ids p = Some [] \<longrightarrow>
            (\<forall>k. BookUpdateSchema.author_id p = Some k \<longrightarrow> authors s k \<noteq> None) \<longrightarrow>
            (\<forall>k. BookUpdateSchema.language_id p = Some k \<longrightarrow> languages s k \<noteq> None) \<longrightarrow>
            fst (fst (update_book s bid p)) = 200 \<and>
            book_genre (snd (update_book s bid p)) bid = {})"
proof (intro conjI allI impI)
  assume "BookUpdateSchema.genre_ids p = None"
  with assms show "book_genre (snd (update_book s bid p)) bid = book_genre s bid"
    by (rule update_book_absent_genre_ids)
next
  fix gids
  assume gs: "BookUpdateSchema.genre_ids p = Some gids"
    and au: "\<forall>k. BookUpdateSchema.author_id p = Some k \<longrightarrow> authors s k \<noteq> None"
    and la: "\<forall>k. BookUpdateSchema.language_id p = Some k \<longrightarrow> languages s k \<noteq> None"
    and kn: "\<forall>g\<in>set gids. genres s g \<noteq> None"
  from update_book_replaces_genres [OF assms gs au la] kn
  show "fst (fst (update_book s bid p)) = 200"
    and "book_genre (snd (update_book s bid p)) bid = set gids" by blast+
next
  assume gs: "BookUpdateSchema.genre_ids p = Some []"
    and au: "\<forall>k. BookUpdateSchema.author_id p = Some k \<longrightarrow> authors s k \<noteq> None"
    and la: "\<forall>k. BookUpdateSchema.language_id p = Some k \<longrightarrow> languages s k \<noteq> None"
  from update_book_replaces_genres [OF assms gs au la]
  show "fst (fst (update_book s bid p)) = 200"
    and "book_genre (snd (update_book s bid p)) bid = {}" by simp_all
qed

theorem update_book_genre_ids_witness:
  "books demo_library 1 = Some demo_book \<and>
   book_genre demo_library 1 = {1} \<and>
   book_genre (snd (update_book demo_library 1
      \<lparr>title = Some ''The Hobbit (2nd ed.)'', summary = None, isbn = None, author_id = None,
       language_id = None, genre_ids = None\<rparr>)) 1 = {1} \<and>
   update_book demo_library 1
      \<lparr>title = None, summary = None, isbn = None, author_id = None, language_id = None,
       genre_ids = Some []\<rparr>
     = ((200, Inr (1, demo_book)), demo_library\<lparr>book_genre := (\<lambda>_. {})\<rparr>) \<and>
   fst (fst (update_book demo_library 1
      \<lparr>title = None, summary = None, isbn = None, author_id = None, language_id = None,
       genre_ids = Some [2]\<rparr>)) = 200 \<and>
   book_genre (snd (update_book demo_library 1
      \<lparr>title = None, summary = None, isbn = None, author_id = None, language_id = None,
       genre_ids = Some [2]\<rparr>)) 1 = {2}"
proof -
  have b: "books demo_library 1 = Some demo_book"
    and g: "book_genre demo_library 1 = {1}"
    by (simp_all add: demo_library_def)
  note t = update_book_genre_ids [OF b]
  have A: "book_genre (snd (update_book demo_library 1
      \<lparr>title = Some ''The Hobbit (2nd ed.)'', summary = None, isbn = None, author_id = None,
       language_id = None, genre_ids = None\<rparr>)) 1 = {1}"
    using t [of "\<lparr>title = Some ''The Hobbit (2nd ed.)'', summary = None, isbn = None,
       author_id = None, language_id = None, genre_ids = None\<rparr>"] g by simp
  have B: "update_book demo_library 1
      \<lparr>title = None, summary = None, isbn = None, author_id = None, language_id = None,
       genre_ids = Some []\<rparr>
     = ((200, Inr (1, demo_book)), demo_library\<lparr>book_genre := (\<lambda>_. {})\<rparr>)"
    by (simp add: update_book_def demo_library_def fun_eq_iff)
  have C: "fst (fst (update_book demo_library 1
      \<lparr>title = None, summary = None, isbn = None, author_id = None, language_id = None,
       genre_ids = Some [2]\<rparr>)) = 200 \<and>
    book_genre (snd (update_book demo_library 1
      \<lparr>title = None, summary = None, isbn = None, author_id = None, language_id = None,
       genre_ids = Some [2]\<rparr>)) 1 = {2}"
    using t [of "\<lparr>title = None, summary = None, isbn = None, author_id = None,
       language_id = None, genre_ids = Some [2]\<rparr>"]
    by (simp add: demo_library_def)
  from b g A B C show ?thesis by simp
qed

subsection \<open>The borrower of a book instance on update\<close>

lemma update_bookinstance_borrower_zero:
  assumes "UUID instance_id = Some u" and "bookinstances s u = Some bi"
    and "\<forall>k. BookInstanceUpdateSchema.book_id p = Some k \<longrightarrow> books s k \<noteq> None"
    and "BookInstanceUpdateSchema.borrower_id p = Some 0"
  shows "fst (fst (update_bookinstance UUID s instance_id p)) = 200 \<and>
         map_option borrower (bookinstances (snd (update_bookinstance UUID s instance_id p)) u)
           = Some None"
  using assms
  by (cases "BookInstanceUpdateSchema.book_id p"; cases "BookInstanceUpdateSchema.imprint p";
      cases "BookInstanceUpdateSchema.due_back p"; cases "BookInstanceUpdateSchema.status p")
    (auto simp: update_bookinstance_def Let_def)

lemma update_bookinstance_borrower_none:
  assumes "UUID instance_id = Some u" and "bookinstances s u = Some bi"
    and "\<forall>k. BookInstanceUpdateSchema.book_id p = Some k \<longrightarrow> books s k \<noteq> None"
    and "BookInstanceUpdateSchema.borrower_id p = None"
  shows "fst (fst (update_bookinstance UUID s instance_id p)) = 200"
  using assms
  by (cases "BookInstanceUpdateSchema.book_id p"; cases "BookInstanceUpdateSchema.imprint p";
      cases "BookInstanceUpdateSchema.due_back p"; cases "BookInstanceUpdateSchema.status p")
    (auto simp: update_bookinstance_def Let_def)

lemma update_bookinstance_borrower_known:
  assumes "UUID instance_id = Some u" and "bookinstances s u = Some bi"
    and "\<forall>k. BookInstanceUpdateSchema.book_id p = Some k \<longrightarrow> books s k \<noteq> None"
    and "BookInstanceUpdateSchema.borrower_id p = Some k" and "k \<noteq> 0" and "get_user s k \<noteq> None"
  shows "fst (fst (update_bookinstance UUID s instance_id p)) = 200 \<and>
         map_option borrower (bookinstances (snd (update_bookinstance UUID s instance_id p)) u)
           = Some (Some k)"
  using assms
  by (cases "BookInstanceUpdateSchema.book_id p"; cases "BookInstanceUpdateSchema.imprint p";
      cases "BookInstanceUpdateSchema.due_back p"; cases "BookInstanceUpdateSchema.status p")
    (auto simp: update_bookinstance_def Let_def)

lemma update_bookinstance_borrower_unknown:
  assumes "UUID instance_id = Some u" and "bookinstances s u = Some bi"
    and "\<forall>k. BookInstanceUpdateSchema.book_id p = Some k \<longrightarrow> books s k \<noteq> None"
    and "BookInstanceUpdateSchema.borrower_id p = Some k" and "k \<noteq> 0" and "get_user s k = None"
  shows "update_bookinstance UUID s instance_id p =
           ((400, Inl (''User with ID '' @ str_int k @ '' not found'')), s)"
  using assms
  by (cases "BookInstanceUpdateSchema.book_id p")
    (auto simp: update_bookinstance_def Let_def)

lemma update_bookinstance_borrower_absent:
  assumes "UUID instance_id = Some u" and "bookinstances s u = Some bi"
    and "BookInstanceUpdateSchema.borrower_id p = None"
  shows "map_option borrower (bookinstances (snd (update_bookinstance UUID s instance_id p)) u)
           = Some (borrower bi)"
  using update_bookinstance_absent
    [where UUID = UUID and instance_id = instance_id and s = s and pi = p, OF assms(1,2)]
    assms(3)
  by auto

text \<open>
  Claim C6: for an existing instance, \<open>update_bookinstance\<close> treats \<open>borrower_id\<close> in
  three ways. Absent: the stored borrower stays what it was. Zero: the update answers 200
  and the stored borrower is null. Another identifier: when a user with that identifier
  exists the update answers 200 and the stored borrower is that user; when none exists
  the update answers 400 with a message naming the identifier and the database is
  unchanged. The handler looks the payload's \<open>book_id\<close> up before it reaches
  \<open>borrower_id\<close>, so the replies are stated for a payload whose \<open>book_id\<close> is absent or
  resolves; that an absent \<open>borrower_id\<close> leaves the borrower alone holds for every payload.
\<close>

theorem update_bookinstance_borrower_id:
  assumes "UUID instance_id = Some u" and "bookinstances s u = Some bi"
  shows
    "(BookInstanceUpdateSchema.borrower_id p = None \<longrightarrow>
        map_option borrower
          (bookinstances (snd (update_bookinstance UUID s instance_id p)) u)
          = Some (borrower bi)) \<and>
     ((\<forall>k. BookInstanceUpdateSchema.book_id p = Some k \<longrightarrow> books s k \<noteq> None) \<longrightarrow>
        (BookInstanceUpdateSchema.borrower_id p = Some 0 \<longrightarrow>
           fst (fst (update_bookinstance UUID s instance_id p)) = 200 \<and>
           map_option borrower
             (bookinstances (snd (update_bookinstance UUID s instance_id p)) u)
             = Some None) \<and>
        (BookInstanceUpdateSchema.borrower_id p = None \<longrightarrow>
           fst (fst (update_bookinstance UUID s instance_id p)) = 200) \<and>
        (\<forall>k. BookInstanceUpdateSchema.borrower_id p = Some k \<longrightarrow> k \<noteq> 0 \<longrightarrow>
           get_user s k \<noteq> None \<longrightarrow>
           fst (fst (update_bookinstance UUID s instance_id p)) = 200 \<and>
           map_option borrower
             (bookinstances (snd (update_bookinstance UUID s instance_id p)) u)
             = Some (Some k)) \<and>
        (\<forall>k. BookInstanceUpdateSchema.borrower_id p = Some k \<longrightarrow> k \<noteq> 0 \<longrightarrow>
           get_user s k = None \<longrightarrow>
           update_bookinstance UUID s instance_id p =
             ((400, Inl (''User with ID '' @ str_int k @ '' not found'')), s)))"
  using update_bookinstance_borrower_absent
      [where UUID = UUID and instance_id = instance_id and p = p, OF assms]
    update_bookinstance_borrower_zero
      [where UUID = UUID and instance_id = instance_id and p = p, OF assms]
    update_bookinstance_borrower_none
      [where UUID = UUID and instance_id = instance_id and p = p, OF assms]
    update_bookinstance_borrower_known
      [where UUID = UUID and instance_id = instance_id and p = p, OF assms]
    update_bookinstance_borrower_unknown
      [where UUID = UUID and instance_id = instance_id and p = p, OF assms]
  by blast

theorem update_bookinstance_borrower_id_witness:
  "UUID_hex demo_token = Some demo_uuid \<and>
   bookinstances demo_library demo_uuid = Some demo_instance \<and>
   borrower demo_instance = Some 2 \<and>
   get_user demo_library 1 = Some librarian \<and>
   get_user demo_library 7 = None \<and>
   map_option borrower (bookinstances (snd (update_bookinstance UUID_hex demo_library demo_token
      \<lparr>book_id = None, imprint = None, due_back = None, borrower_id = Some 0, status = None\<rparr>))
      demo_uuid) = Some None \<and>
   map_option borrower (bookinstances (snd (update_bookinstance UUID_hex demo_library demo_token
      \<lparr>book_id = None, imprint = Some ''Folio'', due_back = None, borrower_id = None,
       status = None\<rparr>)) demo_uuid) = Some (Some 2) \<and>
   map_option borrower (bookinstances (snd (update_bookinstance UUID_hex demo_library demo_token
      \<lparr>book_id = None, imprint = None, due_back = None, borrower_id = Some 1, status = None\<rparr>))
      demo_uuid) = Some (Some 1) \<and>
   update_bookinstance UUID_hex demo_library demo_token
      \<lparr>book_id = None, imprint = None, due_back = None, borrower_id = Some 7, status = None\<rparr>
     = ((400, Inl ''User with ID 7 not found''), demo_library)"
proof -
  have i: "bookinstances demo_library demo_uuid = Some demo_instance"
    by (simp add: demo_library_def)
  have b: "borrower demo_instance = Some 2"
    by (simp add: demo_instance_def)
  have u1: "get_user demo_library 1 = Some librarian"
    and u7: "get_user demo_library 7 = None"
    by (simp_all add: get_user_def demo_library_def librarian_def reader_def)
  have s7: "str_int 7 = ''7''"
    by (simp add: str_int_def str_nat.simps)
  note t = update_bookinstance_borrower_id
    [where UUID = UUID_hex and instance_id = demo_token, OF UUID_hex_demo_token i]
  show ?thesis
    using UUID_hex_demo_token i b u1 u7 s7
      t [of "\<lparr>book_id = None, imprint = None, due_back = None, borrower_id = Some 0,
              status = None\<rparr>"]
      t [of "\<lparr>book_id = None, imprint = Some ''Folio'', due_back = None, borrower_id = None,
              status = None\<rparr>"]
      t [of "\<lparr>book_id = None, imprint = None, due_back = None, borrower_id = Some 1,
              status = None\<rparr>"]
      t [of "\<lparr>book_id = None, imprint = None, due_back = None, borrower_id = Some 7,
              status = None\<rparr>"]
    by simp
qed

subsection \<open>Issuing a token\<close>

text \<open>
  What the body of \<open>get_token\<close> does when the module does hold a function
  \<^verbatim>\<open>create_token\<close>: the name and password of an active user get 200 and the token
  minted for that user, every other pair of name and password gets 401 with one and the
  same message.
\<close>

lemma get_token_if_imported:
  assumes "lib ''create_token'' = Some mint"
  shows "(\<forall>u. authenticate (users s) n pw = Some u \<longrightarrow>
            get_token lib s \<lparr>username = n, password = pw\<rparr> =
              Inr (200, Inr \<lparr>access_token = mint u\<rparr>)) \<and>
         (authenticate (users s) n pw = None \<longrightarrow>
            get_token lib s \<lparr>username = n, password = pw\<rparr> =
              Inr (401, Inl ''Invalid username or password''))"
  using assms by (simp add: get_token_def)

text \<open>
  Claim C8 says that \<open>get_token\<close> answers valid credentials with a token and invalid ones
  with 401, the same reply whether or not the user name exists. With the module
  \<^verbatim>\<open>ninja.security\<close> as it is, the import of \<^verbatim>\<open>create_token\<close> at the head of the handler
  raises \<^verbatim>\<open>ImportError\<close> on every call, before the credentials are looked at: in the
  example library the librarian's own name and password, a wrong password and an unknown
  name all end in the exception, none in a token or in 401.
\<close>

theorem get_token_raises_ImportError:
  "authenticate (users demo_library) ''librarian'' ''s3cret'' = Some librarian \<and>
   get_token ninja_security demo_library \<lparr>username = ''librarian'', password = ''s3cret''\<rparr> =
     Inl ImportError \<and>
   get_token ninja_security demo_library \<lparr>username = ''librarian'', password = ''guess''\<rparr> =
     Inl ImportError \<and>
   get_token ninja_security demo_library \<lparr>username = ''nobody'', password = ''s3cret''\<rparr> =
     Inl ImportError"
  by (simp add: get_token_def ninja_security_def authenticate_def demo_library_def
      librarian_def reader_def)

subsection \<open>Identifiers equal to zero on create\<close>

lemma create_book_author_zero:
  "create_book s (p\<lparr>BookCreateSchema.author_id := Some 0\<rparr>) =
   create_book s (p\<lparr>BookCreateSchema.author_id := None\<rparr>)"
  by (simp add: create_book_def Let_def cong: sum.case_cong option.case_cong if_cong prod.case_cong)

lemma create_book_language_zero:
  "create_book s (p\<lparr>BookCreateSchema.language_id := Some 0\<rparr>) =
   create_book s (p\<lparr>BookCreateSchema.language_id := None\<rparr>)"
  by (simp add: create_book_def Let_def cong: sum.case_cong option.case_cong if_cong prod.case_cong)

lemma create_bookinstance_borrower_zero:
  "create_bookinstance new_id s (q\<lparr>BookInstanceCreateSchema.borrower_id := Some 0\<rparr>) =
   create_bookinstance new_id s (q\<lparr>BookInstanceCreateSchema.borrower_id := None\<rparr>)"
  by (simp add: create_bookinstance_def Let_def cong: sum.case_cong option.case_cong if_cong)

lemma create_book_zero_not_named:
  "BookCreateSchema.author_id p = Some 0 \<Longrightarrow>
   fst (create_book s p) \<noteq> (400, Inl ''Author with ID 0 not found'')"
  "BookCreateSchema.language_id p = Some 0 \<Longrightarrow>
   fst (create_book s p) \<noteq> (400, Inl ''Language with ID 0 not found'')"
  by (cases "BookCreateSchema.author_id p"; cases "BookCreateSchema.language_id p";
      auto simp: create_book_def Let_def split_beta split: option.splits)+

lemma create_bookinstance_zero_not_named:
  "BookInstanceCreateSchema.borrower_id q = Some 0 \<Longrightarrow>
   fst (create_bookinstance new_id s q) \<noteq> (400, Inl ''User with ID 0 not found'')"
  by (auto simp: create_bookinstance_def Let_def split: option.splits)

lemma create_book_zero_ids:
  "BookCreateSchema.author_id p = Some 0 \<Longrightarrow> BookCreateSchema.language_id p = Some 0 \<Longrightarrow>
   BookCreateSchema.genre_ids p = [] \<Longrightarrow>
   create_book s p =
     ((201, Inr (book_seq s,
         \<lparr>Book.title = BookCreateSchema.title p, summary = BookCreateSchema.summary p,
          isbn = BookCreateSchema.isbn p, author = None, language = None\<rparr>)),
      s\<lparr>books := (books s)(book_seq s \<mapsto>
           \<lparr>Book.title = BookCreateSchema.title p, summary = BookCreateSchema.summary p,
            isbn = BookCreateSchema.isbn p, author = None, language = None\<rparr>),
        book_seq := book_seq s + 1\<rparr>)"
  by (simp add: create_book_def Let_def)

lemma create_bookinstance_zero_id:
  "BookInstanceCreateSchema.borrower_id q = Some 0 \<Longrightarrow>
   books s (BookInstanceCreateSchema.book_id q) \<noteq> None \<Longrightarrow>
   create_bookinstance new_id s q =
     ((201, Inr (new_id,
         \<lparr>book = BookInstanceCreateSchema.book_id q,
          imprint = BookInstanceCreateSchema.imprint q,
          due_back = BookInstanceCreateSchema.due_back q, borrower = None,
          status = BookInstanceCreateSchema.status q\<rparr>)),
      s\<lparr>bookinstances := (bookinstances s)(new_id \<mapsto>
         \<lparr>book = BookInstanceCreateSchema.book_id q,
          imprint = BookInstanceCreateSchema.imprint q,
          due_back = BookInstanceCreateSchema.due_back q, borrower = None,
          status = BookInstanceCreateSchema.status q\<rparr>)\<rparr>)"
  by (auto simp: create_bookinstance_def Let_def)

lemma update_book_zero_author_validated:
  "books s bid = Some b \<Longrightarrow> BookUpdateSchema.author_id pu = Some 0 \<Longrightarrow> authors s 0 = None \<Longrightarrow>
   update_book s bid pu = ((400, Inl ''Author with ID 0 not found''), s)"
  by (simp add: update_book_def Let_def str_int_0)

text \<open>
  Claim C9: on create an identifier equal to 0 is treated as absent. \<open>create_book\<close>
  gives the same reply and database for \<open>author_id = 0\<close> as for an absent \<open>author_id\<close>,
  and likewise for \<open>language_id\<close>; \<open>create_bookinstance\<close> does so for
  \<open>borrower_id\<close>. No reply names the identifier 0 as not found, and when the rest of
  the payload resolves the record is created with a null reference. \<open>update_book\<close>, by
  contrast, looks \<open>author_id = 0\<close> up and rejects it when no such author exists.
\<close>

theorem create_zero_id_is_absent:
  "create_book s (p\<lparr>BookCreateSchema.author_id := Some 0\<rparr>) =
     create_book s (p\<lparr>BookCreateSchema.author_id := None\<rparr>) \<and>
   create_book s (p\<lparr>BookCreateSchema.language_id := Some 0\<rparr>) =
     create_book s (p\<lparr>BookCreateSchema.language_id := None\<rparr>) \<and>
   create_bookinstance new_id s (q\<lparr>BookInstanceCreateSchema.borrower_id := Some 0\<rparr>) =
     create_bookinstance new_id s (q\<lparr>BookInstanceCreateSchema.borrower_id := None\<rparr>) \<and>
   (BookCreateSchema.author_id p = Some 0 \<longrightarrow>
      fst (create_book s p) \<noteq> (400, Inl ''Author with ID 0 not found'')) \<and>
   (BookCreateSchema.language_id p = Some 0 \<longrightarrow>
      fst (create_book s p) \<noteq> (400, Inl ''Language with ID 0 not found'')) \<and>
   (BookInstanceCreateSchema.borrower_id q = Some 0 \<longrightarrow>
      fst (create_bookinstance new_id s q) \<noteq> (400, Inl ''User with ID 0 not found'')) \<and>
   (BookCreateSchema.author_id p = Some 0 \<longrightarrow> BookCreateSchema.language_id p = Some 0 \<longrightarrow>
    BookCreateSchema.genre_ids p = [] \<longrightarrow>
      create_book s p =
        ((201, Inr (book_seq s,
            \<lparr>Book.title = BookCreateSchema.title p, summary = BookCreateSchema.summary p,
             isbn = BookCreateSchema.isbn p, author = None, language = None\<rparr>)),
         s\<lparr>books := (books s)(book_seq s \<mapsto>
              \<lparr>Book.title = BookCreateSchema.title p, summary = BookCreateSchema.summary p,
               isbn = BookCreateSchema.isbn p, author = None, language = None\<rparr>),
           book_seq := book_seq s + 1\<rparr>)) \<and>
   (BookInstanceCreateSchema.borrower_id q = Some 0 \<longrightarrow>
    books s (BookInstanceCreateSchema.book_id q) \<noteq> None \<longrightarrow>
      create_bookinstance new_id s q =
        ((201, Inr (new_id,
            \<lparr>book = BookInstanceCreateSchema.book_id q,
             imprint = BookInstanceCreateSchema.imprint q,
             due_back = BookInstanceCreateSchema.due_back q, borrower = None,
             status = BookInstanceCreateSchema.status q\<rparr>)),
         s\<lparr>bookinstances := (bookinstances s)(new_id \<mapsto>
            \<lparr>book = BookInstanceCreateSchema.book_id q,
             imprint = BookInstanceCreateSchema.imprint q,
             due_back = BookInstanceCreateSchema.due_back q, borrower = None,
             status = BookInstanceCreateSchema.status q\<rparr>)\<rparr>)) \<and>
   (\<forall>b. books s bid = Some b \<longrightarrow> BookUpdateSchema.author_id pu = Some 0 \<longrightarrow>
      authors s 0 = None \<longrightarrow>
      update_book s bid pu = ((400, Inl ''Author with ID 0 not found''), s))"
  using create_book_author_zero [of s p] create_book_language_zero [of s p]
    create_bookinstance_borrower_zero [of new_id s q]
    create_book_zero_not_named [of p s] create_bookinstance_zero_not_named [of q new_id s]
    create_book_zero_ids [of p s] create_bookinstance_zero_id [of q s new_id]
    update_book_zero_author_validated [of s bid _ pu]
  by (intro conjI allI impI) blast+

theorem create_zero_id_is_absent_witness:
  "authors demo_library 0 = None \<and> get_user demo_library 0 = None \<and>
   books demo_library 1 = Some demo_book \<and>
   create_book demo_library
      \<lparr>BookCreateSchema.title = ''Dune'', summary = ''Arrakis'', isbn = ''9780441013593'',
       author_id = Some 0, language_id = Some 0, genre_ids = []\<rparr> =
     ((201, Inr (2, \<lparr>Book.title = ''Dune'', summary = ''Arrakis'', isbn = ''9780441013593'',
                     author = None, language = None\<rparr>)),
      demo_library\<lparr>books := (books demo_library)
           (2 \<mapsto> \<lparr>Book.title = ''Dune'', summary = ''Arrakis'', isbn = ''9780441013593'',
                  author = None, language = None\<rparr>),
         book_seq := 3\<rparr>) \<and>
   fst (create_bookinstance 7 demo_library
      \<lparr>BookInstanceCreateSchema.book_id = 1, imprint = ''Folio'', due_back = None, borrower_id = Some 0,
       status = ''a''\<rparr>) =
     (201, Inr (7, \<lparr>book = 1, BookInstance.imprint = ''Folio'', BookInstance.due_back = None,
                    borrower = None, BookInstance.status = ''a''\<rparr>)) \<and>
   update_book demo_library 1
      \<lparr>title = None, summary = None, isbn = None, author_id = Some 0, language_id = None,
       genre_ids = None\<rparr> = ((400, Inl ''Author with ID 0 not found''), demo_library)"
proof -
  define P where "P = \<lparr>BookCreateSchema.title = ''Dune'', summary = ''Arrakis'',
    isbn = ''9780441013593'', author_id = Some 0, language_id = Some 0, genre_ids = []\<rparr>"
  define Q where "Q = \<lparr>BookInstanceCreateSchema.book_id = 1, imprint = ''Folio'',
    due_back = None, borrower_id = Some 0, status = ''a''\<rparr>"
  define PU where "PU = \<lparr>BookUpdateSchema.title = None, summary = None, isbn = None,
    author_id = Some 0, language_id = None, genre_ids = None\<rparr>"
  have a: "authors demo_library 0 = None" and b: "books demo_library 1 = Some demo_book"
    and q: "book_seq demo_library = 2"
    by (simp_all add: demo_library_def)
  have u: "get_user demo_library 0 = None"
    by (simp add: get_user_def demo_library_def librarian_def reader_def)
  have hp: "BookCreateSchema.author_id P = Some 0" "BookCreateSchema.language_id P = Some 0"
    "BookCreateSchema.genre_ids P = []" "BookCreateSchema.title P = ''Dune''"
    "BookCreateSchema.summary P = ''Arrakis''" "BookCreateSchema.isbn P = ''9780441013593''"
    by (simp_all add: P_def)
  have hq: "BookInstanceCreateSchema.borrower_id Q = Some 0"
    "BookInstanceCreateSchema.book_id Q = 1" "BookInstanceCreateSchema.imprint Q = ''Folio''"
    "BookInstanceCreateSchema.due_back Q = None" "BookInstanceCreateSchema.status Q = ''a''"
    by (simp_all add: Q_def)
  have hu: "BookUpdateSchema.author_id PU = Some 0"
    by (simp add: PU_def)
  note t = create_zero_id_is_absent [of demo_library P 7 Q 1 PU]
  from t hp q have A: "create_book demo_library P =
     ((201, Inr (2, \<lparr>Book.title = ''Dune'', summary = ''Arrakis'', isbn = ''9780441013593'',
                     author = None, language = None\<rparr>)),
      demo_library\<lparr>books := (books demo_library)
           (2 \<mapsto> \<lparr>Book.title = ''Dune'', summary = ''Arrakis'', isbn = ''9780441013593'',
                  author = None, language = None\<rparr>),
         book_seq := 3\<rparr>)"
    by simp
  from t hq b have B: "fst (create_bookinstance 7 demo_library Q) =
     (201, Inr (7, \<lparr>book = 1, BookInstance.imprint = ''Folio'', BookInstance.due_back = None,
                    borrower = None, BookInstance.status = ''a''\<rparr>))"
    by simp
  from t hu a b have C: "update_book demo_library 1 PU =
     ((400, Inl ''Author with ID 0 not found''), demo_library)"
    by simp
  from a u b A B C show ?thesis
    by (simp add: P_def Q_def PU_def)
qed

end
